theory Spec2Isabelle
  imports Main "HOL-Library.Word"
begin

unbundle bit_operations_syntax

section \<open>Configuration (p2p.go, Config, DefaultConfig and the Option constructors)\<close>

text \<open>
  A Go \<open>error\<close> value is modelled by its message; the \<open>nil\<close> error is \<open>None\<close>
  of \<open>error option\<close>. A Go \<open>[]byte\<close> is a list of 8-bit words.
\<close>

datatype error = Error string

type_synonym bytes = "8 word list"

text \<open>
  \<open>type Config struct\<close>. Go's \<open>int\<close> fields are never used in arithmetic
  by this package, so they are integers; \<open>time.Duration\<close> is its count of nanoseconds.
\<close>

record Config =
  HostName :: string
  Port :: int
  ExternalHostName :: string
  ExternalPort :: int
  SecureIO :: bool
  Gossip :: bool
  ConnectTimeout :: int

definition Minute :: int where
  "Minute = 60 * 1000000000"

definition DefaultConfig :: Config where
  "DefaultConfig = \<lparr> HostName = ''127.0.0.1'', Port = 30001, ExternalHostName = '''',
     ExternalPort = 30001, SecureIO = False, Gossip = False, ConnectTimeout = Minute \<rparr>"

text \<open>
  \<open>type Option func(cfg *Config) error\<close>: the function mutates the configuration
  it is given and returns an error; the model returns the error and the configuration
  as the function left it. The constructors carry the suffix \<open>_Option\<close>, since the
  fields of \<open>Config\<close> already have their names.
\<close>

type_synonym Option = "Config \<Rightarrow> error option \<times> Config"

definition HostName_Option :: "string \<Rightarrow> Option" where
  "HostName_Option hostName = (\<lambda>c. (None, c\<lparr>HostName := hostName\<rparr>))"

definition Port_Option :: "int \<Rightarrow> Option" where
  "Port_Option port = (\<lambda>c. (None, c\<lparr>Port := port\<rparr>))"

definition ExternalHostName_Option :: "string \<Rightarrow> Option" where
  "ExternalHostName_Option externalHostName = (\<lambda>c. (None, c\<lparr>ExternalHostName := externalHostName\<rparr>))"

definition ExternalPort_Option :: "int \<Rightarrow> Option" where
  "ExternalPort_Option externalPort = (\<lambda>c. (None, c\<lparr>ExternalPort := externalPort\<rparr>))"

definition SecureIO_Option :: Option where
  "SecureIO_Option = (\<lambda>c. (None, c\<lparr>SecureIO := True\<rparr>))"

definition Gossip_Option :: Option where
  "Gossip_Option = (\<lambda>c. (None, c\<lparr>Gossip := True\<rparr>))"

text \<open>The body of \<open>ConnectTimeout\<close> in the source assigns \<open>cfg.Gossip = true\<close>
  and never reads its parameter \<open>timout\<close>.\<close>

definition ConnectTimeout_Option :: "int \<Rightarrow> Option" where
  "ConnectTimeout_Option timout = (\<lambda>c. (None, c\<lparr>Gossip := True\<rparr>))"

section \<open>The standard library: byte strings, integers as text\<close>

text \<open>\<open>[]byte(s)\<close>: the bytes of a Go string.\<close>

definition string_bytes :: "string \<Rightarrow> bytes" where
  "string_bytes s = map of_char s"

text \<open>
  \<open>binary.BigEndian.Uint64(b)\<close> reads \<open>b[0] .. b[7]\<close>, most significant byte first,
  and panics on a slice shorter than eight bytes (its bounds check \<open>_ = b[7]\<close>);
  \<open>None\<close> is the panic.
\<close>

definition BigEndian_Uint64 :: "bytes \<Rightarrow> 64 word option" where
  "BigEndian_Uint64 b =
     (if length b < 8 then None
      else Some (ucast (b ! 7) OR push_bit 8 (ucast (b ! 6)) OR push_bit 16 (ucast (b ! 5))
        OR push_bit 24 (ucast (b ! 4)) OR push_bit 32 (ucast (b ! 3))
        OR push_bit 40 (ucast (b ! 2)) OR push_bit 48 (ucast (b ! 1))
        OR push_bit 56 (ucast (b ! 0))))"

text \<open>
  \<open>strconv.Itoa\<close> and the verb \<open>%d\<close> of \<open>fmt.Sprintf\<close>: the decimal digits of
  an integer, with a minus sign for a negative one.
\<close>

definition digit_char :: "nat \<Rightarrow> char" where
  "digit_char d = ''0123456789'' ! d"

fun digits_of :: "nat \<Rightarrow> string" where
  "digits_of n = (if n < 10 then [digit_char n] else digits_of (n div 10) @ [digit_char (n mod 10)])"

definition Itoa :: "int \<Rightarrow> string" where
  "Itoa i = (if i < 0 then CHR ''-'' # digits_of (nat (- i)) else digits_of (nat i))"

text \<open>
  \<open>strconv.Atoi\<close> on a platform whose \<open>int\<close> has 64 bits. The digits are read
  from the left as \<open>ParseUint\<close> reads them: a character that is no decimal digit is a
  syntax error with the value 0, a value that leaves 64 unsigned bits is a range error.
  A range error returns the nearest representable value together with the error.
\<close>

definition ErrSyntax :: error where
  "ErrSyntax = Error ''invalid syntax''"

definition ErrRange :: error where
  "ErrRange = Error ''value out of range''"

definition digit_val :: "char \<Rightarrow> nat option" where
  "digit_val c = (let v = (of_char c :: nat) in if 48 \<le> v \<and> v \<le> 57 then Some (v - 48) else None)"

fun ParseUint_loop :: "nat \<Rightarrow> string \<Rightarrow> error + nat" where
  "ParseUint_loop n [] = Inr n"
| "ParseUint_loop n (c # cs) =
     (case digit_val c of
        None \<Rightarrow> Inl ErrSyntax
      | Some d \<Rightarrow> if n * 10 + d > 2 ^ 64 - 1 then Inl ErrRange else ParseUint_loop (n * 10 + d) cs)"

definition ParseUint :: "string \<Rightarrow> error + nat" where
  "ParseUint s = (if s = [] then Inl ErrSyntax else ParseUint_loop 0 s)"

definition Atoi :: "string \<Rightarrow> int \<times> error option" where
  "Atoi s0 =
     (let neg = (s0 \<noteq> [] \<and> hd s0 = CHR ''-'');
          s = (if s0 \<noteq> [] \<and> (hd s0 = CHR ''-'' \<or> hd s0 = CHR ''+'') then tl s0 else s0)
      in case ParseUint s of
           Inl e \<Rightarrow>
             if e = ErrRange then (if neg then (- (2 ^ 63), Some e) else (2 ^ 63 - 1, Some e))
             else (0, Some e)
         | Inr un \<Rightarrow>
             if \<not> neg \<and> un \<ge> 2 ^ 63 then (2 ^ 63 - 1, Some ErrRange)
             else if neg \<and> un > 2 ^ 63 then (- (2 ^ 63), Some ErrRange)
             else (if neg then - int un else int un, None))"

section \<open>Identity keys (p2p.go, generateKeyPair)\<close>

type_synonym PrivKey = bytes
type_synonym PubKey = bytes

datatype KeyType = RSA | Ed25519 | Secp256k1

text \<open>
  \<open>rand.NewSource(seed)\<close> and \<open>rand.New(src)\<close> of \<open>math/rand\<close>: a freshly made
  generator is determined by its seed, an \<open>int64\<close>, and the model names it by
  that seed.
\<close>

datatype Source = rand_NewSource int

datatype Rand = rand_New Source

text \<open>
  A function that can panic returns \<open>Panic\<close> with the message of the run-time error,
  or \<open>Return\<close> with what the Go function returns.
\<close>

datatype 'a outcome = Return 'a | Panic string

section \<open>The networking libraries the package calls\<close>

text \<open>
  libp2p, its DHT, its pubsub, multiaddr and cid are not part of the repository. Their
  values are opaque to the package: a multiaddress, a peer id and a content id are
  named by their text, a host, a DHT, a pubsub, a subscription, a stream and a
  \<open>context.Context\<close> by a number.
\<close>

type_synonym Multiaddr = string
type_synonym PeerID = string
type_synonym Cid = string
type_synonym Context = nat
type_synonym host_Host = nat
type_synonym IpfsDHT = nat
type_synonym PubSub = nat
type_synonym Subscription = nat
type_synonym Stream = nat

text \<open>\<open>peerstore.PeerInfo\<close>.\<close>

record PeerInfo =
  ID :: PeerID
  Addrs :: "Multiaddr list"

text \<open>The protocol codes \<open>multiaddr.P_IP4\<close>, \<open>P_TCP\<close> and \<open>P_IPFS\<close>.\<close>

definition P_IP4 :: int where
  "P_IP4 = 4"

definition P_TCP :: int where
  "P_TCP = 6"

definition P_IPFS :: int where
  "P_IPFS = 421"

datatype Codec = Raw

datatype MhType = SHA2_256

text \<open>
  The options \<open>NewHost\<close> hands to \<open>libp2p.New\<close>. \<open>AddrsFactory\<close> carries the
  address function, \<open>Transport\<close> the connect timeout its constructor puts in the
  \<open>TcpTransport\<close>, \<open>Muxer\<close> the protocol name; \<open>libp2p.Identity\<close> keeps its
  package name, since \<open>Identity\<close> is a method of the host.
\<close>

datatype libp2p_Option =
    ListenAddrStrings string
  | AddrsFactory "Multiaddr list \<Rightarrow> Multiaddr list"
  | libp2p_Identity PrivKey
  | Transport int
  | Muxer string
  | EnableRelay
  | NATPortMap
  | NoSecurity

text \<open>The two pubsub constructors a host can hold in its field \<open>newPubSub\<close>.\<close>

datatype NewPubSub = NewFloodSub | NewGossipSub

type_synonym HandleBroadcast = "bytes \<Rightarrow> error option"
type_synonym HandleUnicast = "bytes \<Rightarrow> error option"

text \<open>
  Every call that can change the network or a library object is recorded, in order, in
  a trace; what only reads (\<open>host.Addrs\<close>, \<open>Peerstore().Addrs\<close>, \<open>FindLocal\<close>) is
  answered from the trace and not recorded. \<open>Go_broadcast\<close> records the start of the background task of
  \<open>AddBroadcastPubSub\<close> with its subscription and callback, \<open>SetStreamHandler\<close>
  the callback the installed stream handler runs.
\<close>

datatype effect =
    Libp2p_New Context "libp2p_Option list"
  | Dht_New Context host_Host
  | Host_Connect host_Host Context PeerInfo
  | Dht_Provide IpfsDHT Context Cid bool
  | Dht_Bootstrap IpfsDHT Context
  | SetStreamHandler host_Host string HandleUnicast
  | PubSub_New NewPubSub Context host_Host
  | PubSub_Subscribe PubSub string
  | Go_broadcast Subscription HandleBroadcast
  | PubSub_Publish PubSub string bytes
  | Peerstore_AddAddr host_Host PeerID Multiaddr
  | Host_NewStream host_Host Context PeerID string
  | Stream_Write Stream bytes
  | Stream_Close Stream
  | Dht_GetClosestPeers IpfsDHT Context string
  | Subscription_Cancel Subscription
  | Dht_Close IpfsDHT
  | Host_Close host_Host

type_synonym trace = "effect list"

text \<open>
  What the libraries answer is a parameter of the model. A function of the record that
  depends on the state of the network takes the trace of the calls made so far; the
  others are functions of their arguments. A Go result \<open>(T, error)\<close> is \<open>error + T\<close>,
  except for \<open>ValueForProtocol\<close>, whose string the package reads along with the error.
  \<open>EnsureIPv4\<close> belongs to the package, in a file other than p2p.go.
\<close>

record lib =
  EnsureIPv4 :: "trace \<Rightarrow> string \<Rightarrow> error + string"
  sha1_Sum :: "bytes \<Rightarrow> bytes"
  GenerateKeyPairWithReader :: "KeyType \<Rightarrow> int \<Rightarrow> Rand \<Rightarrow> error + PrivKey \<times> PubKey"
  NewMultiaddr :: "string \<Rightarrow> error + Multiaddr"
  ValueForProtocol :: "Multiaddr \<Rightarrow> int \<Rightarrow> string \<times> error option"
  Encapsulate :: "Multiaddr \<Rightarrow> Multiaddr \<Rightarrow> Multiaddr"
  Multiaddr_String :: "Multiaddr \<Rightarrow> string"
  InfoFromP2pAddr :: "Multiaddr \<Rightarrow> error + PeerInfo"
  IDB58Decode :: "string \<Rightarrow> error + PeerID"
  Pretty :: "PeerID \<Rightarrow> string"
  V1Builder_Sum :: "Codec \<Rightarrow> MhType \<Rightarrow> bytes \<Rightarrow> error + Cid"
  Cid_String :: "Cid \<Rightarrow> string"
  libp2p_New :: "trace \<Rightarrow> Context \<Rightarrow> libp2p_Option list \<Rightarrow> error + host_Host"
  host_ID :: "host_Host \<Rightarrow> PeerID"
  host_Addrs :: "trace \<Rightarrow> host_Host \<Rightarrow> Multiaddr list"
  host_Connect :: "trace \<Rightarrow> host_Host \<Rightarrow> Context \<Rightarrow> PeerInfo \<Rightarrow> error option"
  host_NewStream :: "trace \<Rightarrow> host_Host \<Rightarrow> Context \<Rightarrow> PeerID \<Rightarrow> string \<Rightarrow> error + Stream"
  host_Close :: "trace \<Rightarrow> host_Host \<Rightarrow> error option"
  Peerstore_Addrs :: "trace \<Rightarrow> host_Host \<Rightarrow> PeerID \<Rightarrow> Multiaddr list"
  stream_Write :: "trace \<Rightarrow> Stream \<Rightarrow> bytes \<Rightarrow> error option"
  stream_Close :: "trace \<Rightarrow> Stream \<Rightarrow> error option"
  dht_New :: "trace \<Rightarrow> Context \<Rightarrow> host_Host \<Rightarrow> error + IpfsDHT"
  kad_Provide :: "trace \<Rightarrow> IpfsDHT \<Rightarrow> Context \<Rightarrow> Cid \<Rightarrow> bool \<Rightarrow> error option"
  kad_Bootstrap :: "trace \<Rightarrow> IpfsDHT \<Rightarrow> Context \<Rightarrow> error option"
  kad_GetClosestPeers :: "trace \<Rightarrow> IpfsDHT \<Rightarrow> Context \<Rightarrow> string \<Rightarrow> error + PeerID list"
  kad_FindLocal :: "trace \<Rightarrow> IpfsDHT \<Rightarrow> PeerID \<Rightarrow> PeerInfo"
  kad_Close :: "trace \<Rightarrow> IpfsDHT \<Rightarrow> error option"
  pubsub_New :: "NewPubSub \<Rightarrow> trace \<Rightarrow> Context \<Rightarrow> host_Host \<Rightarrow> error + PubSub"
  pub_Subscribe :: "trace \<Rightarrow> PubSub \<Rightarrow> string \<Rightarrow> error + Subscription"
  pub_Publish :: "trace \<Rightarrow> PubSub \<Rightarrow> string \<Rightarrow> bytes \<Rightarrow> error option"

text \<open>
  \<open>generateKeyPair\<close>. \<open>hash[12:]\<close> is a slice of the 20-byte array \<open>sha1.Sum\<close>
  returns; its element 0 is overwritten with 0 before the eight bytes are read. The
  conversion \<open>int64(...)\<close> keeps the bits and reads them as a signed number.
\<close>

definition generateKeyPair :: "lib \<Rightarrow> string \<Rightarrow> (error + PrivKey \<times> PubKey) outcome" where
  "generateKeyPair l addr =
     (let hash = sha1_Sum l (string_bytes addr);
          seedBytes = drop 12 hash;
          seedBytes = (if seedBytes = [] then None else Some (seedBytes[0 := 0]))
      in case seedBytes of
           None \<Rightarrow> Panic ''index out of range''
         | Some seedBytes \<Rightarrow>
             (case BigEndian_Uint64 seedBytes of
                None \<Rightarrow> Panic ''index out of range''
              | Some u \<Rightarrow>
                  (let seed = sint u;
                       r = rand_New (rand_NewSource seed)
                   in Return (GenerateKeyPairWithReader l Ed25519 2048 r))))"

text \<open>
  The seed in the words of the specification: bytes 12..19 of the hash, the first of
  them zeroed, read as a big-endian integer.
\<close>

definition be_int :: "bytes \<Rightarrow> int" where
  "be_int bs = foldl (\<lambda>acc b. acc * 256 + uint b) 0 bs"

definition spec_seed :: "bytes \<Rightarrow> int" where
  "spec_seed hash = be_int ((take 8 (drop 12 hash))[0 := 0])"

section \<open>The host (p2p.go, Host and NewHost)\<close>

text \<open>
  \<open>type Host struct\<close>. The maps \<open>topics\<close> and \<open>pubs\<close> are only looked up and
  assigned; \<open>subs\<close> is ranged over by \<open>Close\<close>, so it is a list of pairs in the
  order of insertion (Go leaves the order of a range over a map open). The channel
  \<open>close\<close> carries no value: the field says whether it has been closed.
\<close>

record Host =
  host :: host_Host
  cfg :: Config
  ctx :: Context
  topics :: "string \<rightharpoonup> unit"
  kad :: IpfsDHT
  kadKey :: Cid
  newPubSub :: NewPubSub
  pubs :: "string \<rightharpoonup> PubSub"
  subs :: "(string \<times> Subscription) list"
  close :: bool

text \<open>\<open>m[k] = v\<close> on the list of pairs.\<close>

definition assign :: "'k \<Rightarrow> 'v \<Rightarrow> ('k \<times> 'v) list \<Rightarrow> ('k \<times> 'v) list" where
  "assign k v m =
     (if k \<in> fst ` set m then map (\<lambda>(k', v'). if k' = k then (k', v) else (k', v')) m
      else m @ [(k, v)])"

text \<open>The loop of \<open>NewHost\<close> over its options, from \<open>DefaultConfig\<close>.\<close>

fun apply_options :: "Option list \<Rightarrow> Config \<Rightarrow> error + Config" where
  "apply_options [] c = Inr c"
| "apply_options (option # options) c =
     (case option c of
        (Some err, _) \<Rightarrow> Inl err
      | (None, c') \<Rightarrow> apply_options options c')"

text \<open>
  \<open>Identity\<close>, \<open>IdentityHash\<close>, \<open>Address\<close> and \<open>MultiAddress\<close> assign to no
  field of the host: they are functions to the value they return. \<open>MultiAddress\<close>
  indexes \<open>h.host.Addrs()[0]\<close> and drops the error of \<open>NewMultiaddr\<close>, so it panics
  on a host without addresses and where \<open>Encapsulate\<close> gets a nil multiaddress.
\<close>

definition Identity :: "lib \<Rightarrow> Host \<Rightarrow> string" where
  "Identity l h = Pretty l (host_ID l (host h))"

definition IdentityHash :: "lib \<Rightarrow> Host \<Rightarrow> string" where
  "IdentityHash l h = Cid_String l (kadKey h)"

definition Address :: "Host \<Rightarrow> string" where
  "Address h = HostName (cfg h) @ '':'' @ Itoa (Port (cfg h))"

definition MultiAddress :: "lib \<Rightarrow> Host \<Rightarrow> trace \<Rightarrow> string outcome" where
  "MultiAddress l h tr =
     (case host_Addrs l tr (host h) of
        [] \<Rightarrow> Panic ''index out of range''
      | addr # _ \<Rightarrow>
          (case NewMultiaddr l (''/ipfs/'' @ Identity l h) of
             Inl _ \<Rightarrow> Panic ''nil pointer dereference''
           | Inr hostAddr \<Rightarrow> Return (Multiaddr_String l (Encapsulate l addr hostAddr))))"

text \<open>
  \<open>NewHost\<close>, lines 145 to 164: the private key of the listen address and, when an
  external host name is given, the key and the multiaddress of the external address.
\<close>

definition NewHost_identity ::
  "lib \<Rightarrow> trace \<Rightarrow> Config \<Rightarrow> string \<Rightarrow> (error + PrivKey \<times> Multiaddr option) outcome" where
  "NewHost_identity l tr c ip =
     (case generateKeyPair l (ip @ '':'' @ Itoa (Port c)) of
        Panic m \<Rightarrow> Panic m
      | Return (Inl err) \<Rightarrow> Return (Inl err)
      | Return (Inr (sk, _)) \<Rightarrow>
          if ExternalHostName c \<noteq> [] then
            (case EnsureIPv4 l tr (ExternalHostName c) of
               Inl err \<Rightarrow> Return (Inl err)
             | Inr extIP \<Rightarrow>
                 (case generateKeyPair l (extIP @ '':'' @ Itoa (ExternalPort c)) of
                    Panic m \<Rightarrow> Panic m
                  | Return (Inl err) \<Rightarrow> Return (Inl err)
                  | Return (Inr (sk', _)) \<Rightarrow>
                      (case NewMultiaddr l (''/ip4/'' @ extIP @ ''/tcp/'' @ Itoa (ExternalPort c)) of
                         Inl err \<Rightarrow> Return (Inl err)
                       | Inr extMultiAddr \<Rightarrow> Return (Inr (sk', Some extMultiAddr)))))
          else Return (Inr (sk, None)))"

text \<open>\<open>NewHost\<close>, lines 165 to 183: the options for \<open>libp2p.New\<close>.\<close>

definition NewHost_opts :: "Config \<Rightarrow> string \<Rightarrow> PrivKey \<Rightarrow> Multiaddr option \<Rightarrow> libp2p_Option list" where
  "NewHost_opts c ip sk extMultiAddr =
     [ListenAddrStrings (''/ip4/'' @ ip @ ''/tcp/'' @ Itoa (Port c)),
      AddrsFactory (\<lambda>addrs. case extMultiAddr of Some m \<Rightarrow> addrs @ [m] | None \<Rightarrow> addrs),
      libp2p_Identity sk,
      Transport (ConnectTimeout c),
      Muxer ''/yamux/2.0.0'',
      EnableRelay,
      NATPortMap]
     @ (if \<not> SecureIO c then [NoSecurity] else [])"

text \<open>
  \<open>NewHost\<close>, lines 201 to 210: the port the host listens on replaces a port 0.
  The error of \<open>strconv.Atoi\<close> is not looked at.
\<close>

definition NewHost_port :: "lib \<Rightarrow> trace \<Rightarrow> host_Host \<Rightarrow> Config \<Rightarrow> (error + Config) outcome" where
  "NewHost_port l tr hst c =
     (if Port c = 0 then
        (case host_Addrs l tr hst of
           [] \<Rightarrow> Panic ''index out of range''
         | addr # _ \<Rightarrow>
             (case ValueForProtocol l addr P_TCP of
                (_, Some err) \<Rightarrow> Return (Inl err)
              | (portStr, None) \<Rightarrow> Return (Inr (c\<lparr>Port := fst (Atoi portStr)\<rparr>))))
      else Return (Inr c))"

text \<open>
  \<open>NewHost\<close>. The logging at its end evaluates \<open>myHost.Address()\<close> and
  \<open>myHost.MultiAddress()\<close>; only a panic of the latter shows in the result.
\<close>

definition NewHost :: "lib \<Rightarrow> Context \<Rightarrow> Option list \<Rightarrow> trace \<Rightarrow> (error + Host) outcome \<times> trace" where
  "NewHost l cx options tr =
     (case apply_options options DefaultConfig of
        Inl err \<Rightarrow> (Return (Inl err), tr)
      | Inr c \<Rightarrow>
     (case EnsureIPv4 l tr (HostName c) of
        Inl err \<Rightarrow> (Return (Inl err), tr)
      | Inr ip \<Rightarrow>
     (case NewHost_identity l tr c ip of
        Panic m \<Rightarrow> (Panic m, tr)
      | Return (Inl err) \<Rightarrow> (Return (Inl err), tr)
      | Return (Inr (sk, extMultiAddr)) \<Rightarrow>
     (let opts = NewHost_opts c ip sk extMultiAddr;
          tr1 = tr @ [Libp2p_New cx opts]
      in case libp2p_New l tr cx opts of
        Inl err \<Rightarrow> (Return (Inl err), tr1)
      | Inr hst \<Rightarrow>
     (let tr2 = tr1 @ [Dht_New cx hst]
      in case dht_New l tr1 cx hst of
        Inl err \<Rightarrow> (Return (Inl err), tr2)
      | Inr kd \<Rightarrow>
     (let nps = (if Gossip c then NewGossipSub else NewFloodSub)
      in case V1Builder_Sum l Raw SHA2_256 (string_bytes (Pretty l (host_ID l hst))) of
        Inl err \<Rightarrow> (Return (Inl err), tr2)
      | Inr cid \<Rightarrow>
     (case NewHost_port l tr2 hst c of
        Panic m \<Rightarrow> (Panic m, tr2)
      | Return (Inl err) \<Rightarrow> (Return (Inl err), tr2)
      | Return (Inr c') \<Rightarrow>
     (let myHost = \<lparr> host = hst, cfg = c', ctx = cx, topics = Map.empty, kad = kd,
            kadKey = cid, newPubSub = nps, pubs = Map.empty, subs = [], close = False \<rparr>
      in case MultiAddress l myHost tr2 of
        Panic m \<Rightarrow> (Panic m, tr2)
      | Return _ \<Rightarrow> (Return (Inr myHost), tr2)))))))))"

section \<open>The operations of a host (p2p.go)\<close>

text \<open>
  A method with the receiver \<open>h *Host\<close> that assigns to the host or calls a library
  takes the host and the trace and returns, after its Go result, the host and the trace
  as it left them.
\<close>

definition addrToMultiAddr :: "lib \<Rightarrow> string \<Rightarrow> error + Multiaddr" where
  "addrToMultiAddr l addr = NewMultiaddr l addr"

definition Connect :: "lib \<Rightarrow> string \<Rightarrow> Host \<Rightarrow> trace \<Rightarrow> error option \<times> Host \<times> trace" where
  "Connect l addr h tr =
     (case addrToMultiAddr l addr of
        Inl err \<Rightarrow> (Some err, h, tr)
      | Inr ma \<Rightarrow>
          (case InfoFromP2pAddr l ma of
             Inl err \<Rightarrow> (Some err, h, tr)
           | Inr target \<Rightarrow>
               (case host_Connect l tr (host h) (ctx h) target of
                  Some err \<Rightarrow> (Some err, h, tr @ [Host_Connect (host h) (ctx h) target])
                | None \<Rightarrow> (None, h, tr @ [Host_Connect (host h) (ctx h) target]))))"

definition JoinOverlay :: "lib \<Rightarrow> Host \<Rightarrow> trace \<Rightarrow> error option \<times> Host \<times> trace" where
  "JoinOverlay l h tr =
     (let tr1 = tr @ [Dht_Provide (kad h) (ctx h) (kadKey h) True]
      in case kad_Provide l tr (kad h) (ctx h) (kadKey h) True of
           None \<Rightarrow> (None, h, tr1)
         | Some err \<Rightarrow> (kad_Bootstrap l tr1 (kad h) (ctx h), h, tr1 @ [Dht_Bootstrap (kad h) (ctx h)]))"

definition AddUnicastPubSub ::
  "lib \<Rightarrow> string \<Rightarrow> HandleUnicast \<Rightarrow> Host \<Rightarrow> trace \<Rightarrow> error option \<times> Host \<times> trace" where
  "AddUnicastPubSub l topic callback h tr =
     (if topics h topic \<noteq> None then (None, h, tr)
      else (None, h\<lparr>topics := (topics h)(topic \<mapsto> ())\<rparr>,
            tr @ [SetStreamHandler (host h) topic callback]))"

definition AddBroadcastPubSub ::
  "lib \<Rightarrow> string \<Rightarrow> HandleBroadcast \<Rightarrow> Host \<Rightarrow> trace \<Rightarrow> error option \<times> Host \<times> trace" where
  "AddBroadcastPubSub l topic callback h tr =
     (if pubs h topic \<noteq> None then (None, h, tr)
      else
        (let tr1 = tr @ [PubSub_New (newPubSub h) (ctx h) (host h)]
         in case pubsub_New l (newPubSub h) tr (ctx h) (host h) of
              Inl err \<Rightarrow> (Some err, h, tr1)
            | Inr pub \<Rightarrow>
                (let tr2 = tr1 @ [PubSub_Subscribe pub topic]
                 in case pub_Subscribe l tr1 pub topic of
                      Inl err \<Rightarrow> (Some err, h, tr2)
                    | Inr sub \<Rightarrow>
                        (None,
                         h\<lparr>pubs := (pubs h)(topic \<mapsto> pub), subs := assign topic sub (subs h)\<rparr>,
                         tr2 @ [Go_broadcast sub callback]))))"

definition Broadcast :: "lib \<Rightarrow> string \<Rightarrow> bytes \<Rightarrow> Host \<Rightarrow> trace \<Rightarrow> error option \<times> Host \<times> trace" where
  "Broadcast l topic data h tr =
     (case pubs h topic of
        None \<Rightarrow> (None, h, tr)
      | Some pub \<Rightarrow> (pub_Publish l tr pub topic data, h, tr @ [PubSub_Publish pub topic data]))"

text \<open>
  \<open>Unicast\<close> has the named result \<open>err\<close>. Once the stream is open, the deferred
  function \<open>func() { err = stream.Close() }\<close> runs at every return and overwrites the
  result, also the error of \<open>stream.Write\<close>.
\<close>

definition Unicast ::
  "lib \<Rightarrow> string \<Rightarrow> string \<Rightarrow> bytes \<Rightarrow> Host \<Rightarrow> trace \<Rightarrow> error option \<times> Host \<times> trace" where
  "Unicast l addr topic data h tr =
     (case addrToMultiAddr l addr of
        Inl err \<Rightarrow> (Some err, h, tr)
      | Inr ma \<Rightarrow>
          (case ValueForProtocol l ma P_IPFS of
             (_, Some err) \<Rightarrow> (Some err, h, tr)
           | (peerIDStr, None) \<Rightarrow>
               (case IDB58Decode l peerIDStr of
                  Inl err \<Rightarrow> (Some err, h, tr)
                | Inr peerID \<Rightarrow>
                    (let tr1 = (if length (Peerstore_Addrs l tr (host h) peerID) = 0
                                then tr @ [Peerstore_AddAddr (host h) peerID ma] else tr);
                         tr2 = tr1 @ [Host_NewStream (host h) (ctx h) peerID topic]
                     in case host_NewStream l tr1 (host h) (ctx h) peerID topic of
                          Inl err \<Rightarrow> (Some err, h, tr2)
                        | Inr stream \<Rightarrow>
                            (let tr3 = tr2 @ [Stream_Write stream data]
                             in case stream_Write l tr2 stream data of
                                  Some err \<Rightarrow>
                                    (stream_Close l tr3 stream, h, tr3 @ [Stream_Close stream])
                                | None \<Rightarrow>
                                    (stream_Close l tr3 stream, h, tr3 @ [Stream_Close stream]))))))"

text \<open>
  \<open>Neighbors\<close>. The inner loop runs over the addresses of one peer: \<open>continue\<close>
  goes on with the next address, \<open>break\<close> leaves the loop after the append.
\<close>

fun Neighbors_addrs :: "lib \<Rightarrow> Multiaddr list \<Rightarrow> string list \<Rightarrow> string list" where
  "Neighbors_addrs l [] neighbors = neighbors"
| "Neighbors_addrs l (ma # mas) neighbors =
     (case ValueForProtocol l ma P_IP4 of
        (ip, err) \<Rightarrow>
          if ip = [] \<or> err \<noteq> None then Neighbors_addrs l mas neighbors
          else
            (case ValueForProtocol l ma P_TCP of
               (portStr, err) \<Rightarrow>
                 if err \<noteq> None then Neighbors_addrs l mas neighbors
                 else
                   (case Atoi portStr of
                      (port, err) \<Rightarrow>
                        if err \<noteq> None then Neighbors_addrs l mas neighbors
                        else neighbors @ [ip @ '':'' @ Itoa port])))"

text \<open>
  The outer loop ranges over the channel \<open>GetClosestPeers\<close> returns; the list is
  what the channel delivers before it is closed.
\<close>

fun Neighbors_peers :: "lib \<Rightarrow> trace \<Rightarrow> IpfsDHT \<Rightarrow> PeerID list \<Rightarrow> string list \<Rightarrow> string list" where
  "Neighbors_peers l tr kd [] neighbors = neighbors"
| "Neighbors_peers l tr kd (peer # peers) neighbors =
     Neighbors_peers l tr kd peers (Neighbors_addrs l (Addrs (kad_FindLocal l tr kd peer)) neighbors)"

definition Neighbors :: "lib \<Rightarrow> Host \<Rightarrow> trace \<Rightarrow> (error + string list) \<times> Host \<times> trace" where
  "Neighbors l h tr =
     (let tr1 = tr @ [Dht_GetClosestPeers (kad h) (ctx h) (Cid_String l (kadKey h))]
      in case kad_GetClosestPeers l tr (kad h) (ctx h) (Cid_String l (kadKey h)) of
           Inl err \<Rightarrow> (Inl err, h, tr1)
         | Inr peers \<Rightarrow> (Inr (Neighbors_peers l tr1 (kad h) peers []), h, tr1))"

text \<open>\<open>Close\<close>. Closing a channel that is closed already panics.\<close>

definition Close :: "lib \<Rightarrow> Host \<Rightarrow> trace \<Rightarrow> error option outcome \<times> Host \<times> trace" where
  "Close l h tr =
     (if close h then (Panic ''close of closed channel'', h, tr)
      else
        (let h1 = h\<lparr>close := True\<rparr>;
             tr1 = tr @ map (\<lambda>(_, sub). Subscription_Cancel sub) (subs h);
             tr2 = tr1 @ [Dht_Close (kad h)]
         in case kad_Close l tr1 (kad h) of
              Some err \<Rightarrow> (Return (Some err), h1, tr2)
            | None \<Rightarrow>
                (case host_Close l tr2 (host h) of
                   Some err \<Rightarrow> (Return (Some err), h1, tr2 @ [Host_Close (host h)])
                 | None \<Rightarrow> (Return None, h1, tr2 @ [Host_Close (host h)]))))"

text \<open>
  A call of one of the twelve methods, and the host and trace it leaves. The four
  read-only methods return a value and leave both as they were.
\<close>

datatype operation =
    Op_Connect string
  | Op_JoinOverlay
  | Op_AddUnicastPubSub string HandleUnicast
  | Op_AddBroadcastPubSub string HandleBroadcast
  | Op_Broadcast string bytes
  | Op_Unicast string string bytes
  | Op_Identity
  | Op_IdentityHash
  | Op_Address
  | Op_MultiAddress
  | Op_Neighbors
  | Op_Close

fun run_op :: "lib \<Rightarrow> operation \<Rightarrow> Host \<times> trace \<Rightarrow> Host \<times> trace" where
  "run_op l (Op_Connect addr) (h, tr) = snd (Connect l addr h tr)"
| "run_op l Op_JoinOverlay (h, tr) = snd (JoinOverlay l h tr)"
| "run_op l (Op_AddUnicastPubSub topic callback) (h, tr) = snd (AddUnicastPubSub l topic callback h tr)"
| "run_op l (Op_AddBroadcastPubSub topic callback) (h, tr) = snd (AddBroadcastPubSub l topic callback h tr)"
| "run_op l (Op_Broadcast topic data) (h, tr) = snd (Broadcast l topic data h tr)"
| "run_op l (Op_Unicast addr topic data) (h, tr) = snd (Unicast l addr topic data h tr)"
| "run_op l Op_Identity (h, tr) = (h, tr)"
| "run_op l Op_IdentityHash (h, tr) = (h, tr)"
| "run_op l Op_Address (h, tr) = (h, tr)"
| "run_op l Op_MultiAddress (h, tr) = (h, tr)"
| "run_op l Op_Neighbors (h, tr) = snd (Neighbors l h tr)"
| "run_op l Op_Close (h, tr) = snd (Close l h tr)"

fun run_ops :: "lib \<Rightarrow> operation list \<Rightarrow> Host \<times> trace \<Rightarrow> Host \<times> trace" where
  "run_ops l [] s = s"
| "run_ops l (x # xs) s = run_ops l xs (run_op l x s)"

section \<open>A small library, to run the model on concrete inputs\<close>

text \<open>
  Multiaddresses are read as text, \<open>/name/value/name/value...\<close>; handles are numbered
  by the length of the trace; \<open>sha1.Sum\<close> is tabulated at the address of the default
  configuration with its real digest.
\<close>

fun fields :: "string \<Rightarrow> string list" where
  "fields [] = [[]]"
| "fields (c # cs) =
     (if c = CHR ''/'' then [] # fields cs
      else (case fields cs of f # fs \<Rightarrow> (c # f) # fs | [] \<Rightarrow> [[c]]))"

fun component :: "string \<Rightarrow> string list \<Rightarrow> string option" where
  "component name (p # v # rest) = (if p = name then Some v else component name rest)"
| "component name _ = None"

definition proto_name :: "int \<Rightarrow> string" where
  "proto_name code =
     (if code = P_IP4 then ''ip4'' else if code = P_TCP then ''tcp''
      else if code = P_IPFS then ''ipfs'' else ''?'')"

definition example_ValueForProtocol :: "Multiaddr \<Rightarrow> int \<Rightarrow> string \<times> error option" where
  "example_ValueForProtocol ma code =
     (case component (proto_name code) (tl (fields ma)) of
        Some v \<Rightarrow> (v, None)
      | None \<Rightarrow> ([], Some (Error ''protocol not found in multiaddr'')))"

definition example_sha1 :: "bytes \<Rightarrow> bytes" where
  "example_sha1 b =
     (if b = string_bytes ''127.0.0.1:30001''
      then [227, 245, 7, 104, 208, 183, 242, 168, 114, 24, 230, 197, 153, 85, 239, 209, 166, 37, 196, 7]
      else replicate 20 0)"

definition example_FindLocal :: "PeerID \<Rightarrow> PeerInfo" where
  "example_FindLocal p =
     \<lparr> ID = p,
       Addrs = (if p = ''QmA'' then [''/ip6/::1/tcp/9'', ''/ip4/10.0.0.7/tcp/4001'', ''/ip4/10.0.0.8/tcp/4002'']
                else if p = ''QmC'' then [''/ip4/10.0.0.9/udp/53'', ''/ip4/10.0.0.9/tcp/4003'']
                else []) \<rparr>"

definition example_lib :: lib where
  "example_lib =
     \<lparr> EnsureIPv4 = (\<lambda>tr s. Inr s),
       sha1_Sum = example_sha1,
       GenerateKeyPairWithReader =
         (\<lambda>kt bits r. case r of rand_New (rand_NewSource seed) \<Rightarrow>
            Inr (string_bytes (''sk'' @ Itoa seed), string_bytes (''pk'' @ Itoa seed))),
       NewMultiaddr = (\<lambda>s. if s \<noteq> [] \<and> hd s = CHR ''/'' then Inr s else Inl (Error ''invalid multiaddr'')),
       ValueForProtocol = example_ValueForProtocol,
       Encapsulate = (\<lambda>a b. a @ b),
       Multiaddr_String = (\<lambda>a. a),
       InfoFromP2pAddr =
         (\<lambda>ma. case example_ValueForProtocol ma P_IPFS of
                  (p, None) \<Rightarrow> Inr \<lparr> ID = p, Addrs = [ma] \<rparr>
                | (_, Some err) \<Rightarrow> Inl err),
       IDB58Decode = (\<lambda>s. if s = [] then Inl (Error ''empty peer id'') else Inr s),
       Pretty = (\<lambda>p. p),
       V1Builder_Sum = (\<lambda>codec mh b. if b = [] then Inl (Error ''empty input'') else Inr (''cid'' @ Itoa (int (length b)))),
       Cid_String = (\<lambda>c. c),
       libp2p_New = (\<lambda>tr cx opts. Inr (length tr + 1)),
       host_ID = (\<lambda>h. ''QmHost'' @ Itoa (int h)),
       host_Addrs = (\<lambda>tr h. [''/ip4/127.0.0.1/tcp/30001'']),
       host_Connect = (\<lambda>tr h cx target. if ID target = ''QmDown'' then Some (Error ''dial failed'') else None),
       host_NewStream = (\<lambda>tr h cx p topic. Inr (length tr + 1)),
       host_Close = (\<lambda>tr h. None),
       Peerstore_Addrs = (\<lambda>tr h p. []),
       stream_Write = (\<lambda>tr s d. if d = [] then Some (Error ''short write'') else None),
       stream_Close = (\<lambda>tr s. None),
       dht_New = (\<lambda>tr cx h. Inr (length tr + 1)),
       kad_Provide = (\<lambda>tr kd cx c b. Some (Error ''failed to find any peer in table'')),
       kad_Bootstrap = (\<lambda>tr kd cx. None),
       kad_GetClosestPeers = (\<lambda>tr kd cx key. Inr [''QmA'', ''QmB'', ''QmC'']),
       kad_FindLocal = (\<lambda>tr kd p. example_FindLocal p),
       kad_Close = (\<lambda>tr kd. None),
       pubsub_New = (\<lambda>ctor tr cx h. Inr (length tr + 1)),
       pub_Subscribe = (\<lambda>tr pub topic. Inr (length tr + 1)),
       pub_Publish = (\<lambda>tr pub topic d. if d = [] then Some (Error ''empty message'') else None) \<rparr>"

text \<open>A host as \<open>NewHost\<close> builds it from no options with this library.\<close>

definition example_host :: Host where
  "example_host =
     \<lparr> host = 1, cfg = DefaultConfig, ctx = 0, topics = Map.empty, kad = 2,
       kadKey = ''cid7'', newPubSub = NewFloodSub, pubs = Map.empty, subs = [], close = False \<rparr>"

section \<open>The neighbour list in the words of the specification\<close>

text \<open>
  The entry of one address: \<open>ip:port\<close> from its IPv4 component and the integer value
  of its TCP component, when it carries both and the port parses. The entry of one peer:
  that of the first of its addresses that has one.
\<close>

definition spec_entry :: "lib \<Rightarrow> Multiaddr \<Rightarrow> string option" where
  "spec_entry l ma =
     (let (ip, e1) = ValueForProtocol l ma P_IP4;
          (portStr, e2) = ValueForProtocol l ma P_TCP;
          (port, e3) = Atoi portStr
      in if ip \<noteq> [] \<and> e1 = None \<and> e2 = None \<and> e3 = None then Some (ip @ '':'' @ Itoa port)
         else None)"

definition spec_neighbor :: "lib \<Rightarrow> Multiaddr list \<Rightarrow> string option" where
  "spec_neighbor l mas =
     (case List.find (\<lambda>ma. spec_entry l ma \<noteq> None) mas of
        None \<Rightarrow> None
      | Some ma \<Rightarrow> spec_entry l ma)"

text \<open>A host with the unicast topic \<open>chat\<close> and the broadcast topic \<open>news\<close> registered.\<close>

definition example_registered :: Host where
  "example_registered =
     example_host\<lparr>topics := [''chat'' \<mapsto> ()], pubs := [''news'' \<mapsto> 3], subs := [(''news'', 4)]\<rparr>"

section \<open>Theorems\<close>

lemma options_applied_as_set:
  "HostName_Option s c = (None, c\<lparr>HostName := s\<rparr>)"
  "Port_Option n c = (None, c\<lparr>Port := n\<rparr>)"
  "ExternalHostName_Option s c = (None, c\<lparr>ExternalHostName := s\<rparr>)"
  "ExternalPort_Option n c = (None, c\<lparr>ExternalPort := n\<rparr>)"
  "SecureIO_Option c = (None, c\<lparr>SecureIO := True\<rparr>)"
  "Gossip_Option c = (None, c\<lparr>Gossip := True\<rparr>)"
  by (simp_all add: HostName_Option_def Port_Option_def ExternalHostName_Option_def
      ExternalPort_Option_def SecureIO_Option_def Gossip_Option_def)

lemma ConnectTimeout_Option_ignores_timeout:
  "ConnectTimeout_Option d c = (None, c\<lparr>Gossip := True\<rparr>)"
  "ConnectTimeout (snd (ConnectTimeout_Option d c)) = ConnectTimeout c"
  by (simp_all add: ConnectTimeout_Option_def)

text \<open>
  C1 (the code departs from the claim). The option built by \<open>ConnectTimeout d\<close> does
  not store \<open>d\<close>: on the default configuration, whose timeout is one minute and whose
  gossip flag is off, applying \<open>ConnectTimeout 5000000000\<close> (five seconds) leaves the
  connect-timeout field at one minute and switches the gossip flag on.
\<close>

theorem ConnectTimeout_Option_sets_Gossip:
  "ConnectTimeout (snd (ConnectTimeout_Option 5000000000 DefaultConfig)) = Minute
   \<and> ConnectTimeout (snd (ConnectTimeout_Option 5000000000 DefaultConfig)) \<noteq> 5000000000
   \<and> Gossip (snd (ConnectTimeout_Option 5000000000 DefaultConfig))
   \<and> \<not> Gossip DefaultConfig"
  by (simp add: ConnectTimeout_Option_def DefaultConfig_def Minute_def)


subsection \<open>Identity keys\<close>

lemma len8: "length (ds::bytes) = 8 \<Longrightarrow> \<exists>a b c d e f g h. ds = [a,b,c,d,e,f,g,h]"
  by (auto simp: length_Suc_conv eval_nat_numeral)

lemma or_push_bit_int:
  fixes a k :: int
  assumes "0 \<le> a" "a < 2 ^ n"
  shows "a OR push_bit n k = a + push_bit n k"
proof -
  have "\<not> bit a m \<or> \<not> bit (push_bit n k) m" for m
  proof (cases "m < n")
    case True
    then show ?thesis by (simp add: bit_push_bit_iff)
  next
    case False
    then have "n \<le> m" by simp
    then have "(2::int) ^ n \<le> 2 ^ m" by simp
    with assms have "a < 2 ^ m" by linarith
    with assms(1) have "\<not> bit a m"
      by (simp add: bit_iff_odd)
    then show ?thesis by simp
  qed
  then show ?thesis by (rule disjunctive_add [symmetric])
qed

lemma byte_or_push_bit:
  fixes x :: "8 word" and k :: int
  shows "uint x OR push_bit 8 k = uint x + 256 * k"
proof -
  have "uint x < 2 ^ 8" using uint_bounded [of x] by simp
  then show ?thesis
    using or_push_bit_int [of "uint x" 8 k] by (simp add: push_bit_eq_mult)
qed

lemma uint_push_ucast:
  fixes x :: "8 word"
  assumes "n \<le> 56"
  shows "uint (push_bit n (ucast x :: 64 word)) = push_bit n (uint x)"
proof -
  have b: "uint x < 2 ^ 8" using uint_bounded [of x] by simp
  have "push_bit n (uint x) < push_bit n (2 ^ 8)"
    using b by (simp add: push_bit_eq_mult)
  also have "\<dots> = 2 ^ (n + 8)" by (simp add: push_bit_eq_mult power_add)
  also have "\<dots> \<le> (2::int) ^ 64" using assms by (intro power_increasing) auto
  finally have lt: "push_bit n (uint x) < 2 ^ 64" .
  have ge: "0 \<le> push_bit n (uint x)" by (simp add: push_bit_eq_mult)
  have "uint (push_bit n (ucast x :: 64 word)) = take_bit 64 (push_bit n (uint (ucast x :: 64 word)))"
    by (simp add: unsigned_push_bit_eq)
  also have "uint (ucast x :: 64 word) = uint x" by (simp add: uint_up_ucast is_up)
  also have "take_bit 64 (push_bit n (uint x)) = push_bit n (uint x)"
    using lt ge by (simp add: take_bit_int_eq_self)
  finally show ?thesis .
qed

lemma uint_BigEndian:
  fixes b0 b1 b2 b3 b4 b5 b6 b7 :: "8 word"
  shows "uint (ucast b7 OR push_bit 8 (ucast b6) OR push_bit 16 (ucast b5)
        OR push_bit 24 (ucast b4) OR push_bit 32 (ucast b3)
        OR push_bit 40 (ucast b2) OR push_bit 48 (ucast b1)
        OR push_bit 56 (ucast b0) :: 64 word) = be_int [b0, b1, b2, b3, b4, b5, b6, b7]"
proof -
  have flat: "uint b7 OR push_bit 8 (uint b6) OR push_bit 16 (uint b5)
        OR push_bit 24 (uint b4) OR push_bit 32 (uint b3)
        OR push_bit 40 (uint b2) OR push_bit 48 (uint b1)
        OR push_bit 56 (uint b0)
     = uint b7 OR push_bit 8 (uint b6 OR push_bit 8 (uint b5 OR push_bit 8 (uint b4
        OR push_bit 8 (uint b3 OR push_bit 8 (uint b2 OR push_bit 8 (uint b1 OR push_bit 8 (uint b0)))))))"
    by (simp add: push_bit_or push_bit_push_bit)
  have "uint (ucast b7 OR push_bit 8 (ucast b6) OR push_bit 16 (ucast b5)
        OR push_bit 24 (ucast b4) OR push_bit 32 (ucast b3)
        OR push_bit 40 (ucast b2) OR push_bit 48 (ucast b1)
        OR push_bit 56 (ucast b0) :: 64 word)
     = uint b7 OR push_bit 8 (uint b6) OR push_bit 16 (uint b5)
        OR push_bit 24 (uint b4) OR push_bit 32 (uint b3)
        OR push_bit 40 (uint b2) OR push_bit 48 (uint b1)
        OR push_bit 56 (uint b0)"
    by (simp only: uint_or uint_push_ucast) (simp add: uint_up_ucast is_up)
  also note flat
  also have "uint b7 OR push_bit 8 (uint b6 OR push_bit 8 (uint b5 OR push_bit 8 (uint b4
        OR push_bit 8 (uint b3 OR push_bit 8 (uint b2 OR push_bit 8 (uint b1 OR push_bit 8 (uint b0)))))))
     = be_int [b0, b1, b2, b3, b4, b5, b6, b7]"
    by (simp only: byte_or_push_bit) (simp add: be_int_def push_bit_eq_mult algebra_simps)
  finally show ?thesis .
qed

lemma be_int_zero_bound:
  fixes b1 :: "8 word"
  shows "0 \<le> be_int [0, b1, b2, b3, b4, b5, b6, b7] \<and> be_int [0, b1, b2, b3, b4, b5, b6, b7] < 2 ^ 56"
  using uint_bounded [of b1] uint_bounded [of b2] uint_bounded [of b3] uint_bounded [of b4]
    uint_bounded [of b5] uint_bounded [of b6] uint_bounded [of b7]
  by (simp add: be_int_def)

lemma seed_slice:
  fixes hash :: bytes
  assumes "length hash = 20"
  shows "\<exists>b1 b2 b3 b4 b5 b6 b7. (drop 12 hash)[0 := 0] = [0, b1, b2, b3, b4, b5, b6, b7]
           \<and> (take 8 (drop 12 hash))[0 := 0] = [0, b1, b2, b3, b4, b5, b6, b7]"
proof -
  from assms have "length (drop 12 hash) = 8" by simp
  from len8 [OF this] obtain a b c d e f g h where "drop 12 hash = [a, b, c, d, e, f, g, h]"
    by blast
  then show ?thesis by simp
qed

lemma sint_small:
  fixes u :: "64 word"
  assumes "uint u < 2 ^ 56"
  shows "sint u = uint u"
proof -
  have "0 \<le> uint u" by simp
  moreover have "uint u < 2 ^ 63" using assms by simp
  ultimately have "signed_take_bit 63 (uint u) = uint u"
    by (intro signed_take_bit_int_eq_self) linarith+
  then show ?thesis by (simp add: sint_uint)
qed

text \<open>
  C2. \<open>generateKeyPair a\<close> is the key generator applied to a fresh pseudo-random
  source whose seed is bytes 12..19 of the SHA-1 hash of \<open>a\<close>, the first of them
  zeroed, read as a big-endian integer: a function of the address alone, so every call
  with the same address returns the same keys. The seed lies in \<open>0 ..< 2 ^ 56\<close>.
  \<open>sha1.Sum\<close> returns an array of 20 bytes.
\<close>

theorem generateKeyPair_deterministic:
  assumes "length (sha1_Sum l (string_bytes a)) = 20"
  shows "generateKeyPair l a =
           Return (GenerateKeyPairWithReader l Ed25519 2048
             (rand_New (rand_NewSource (spec_seed (sha1_Sum l (string_bytes a))))))
         \<and> 0 \<le> spec_seed (sha1_Sum l (string_bytes a))
         \<and> spec_seed (sha1_Sum l (string_bytes a)) < 2 ^ 56"
proof -
  let ?h = "sha1_Sum l (string_bytes a)"
  obtain b1 b2 b3 b4 b5 b6 b7 where
    d: "(drop 12 ?h)[0 := 0] = [0, b1, b2, b3, b4, b5, b6, b7]" and
    t: "(take 8 (drop 12 ?h))[0 := 0] = [0, b1, b2, b3, b4, b5, b6, b7]"
    using seed_slice [OF assms] by blast
  have ne: "drop 12 ?h \<noteq> []" using assms by simp
  have s: "spec_seed ?h = be_int [0, b1, b2, b3, b4, b5, b6, b7]"
    by (simp add: spec_seed_def t)
  obtain u where u: "BigEndian_Uint64 [0, b1, b2, b3, b4, b5, b6, b7] = Some u"
    and uu: "uint u = be_int [0, b1, b2, b3, b4, b5, b6, b7]"
    using uint_BigEndian [of b7 b6 b5 b4 b3 b2 b1 0] by (simp add: BigEndian_Uint64_def)
  have "sint u = uint u"
    using be_int_zero_bound [of b1 b2 b3 b4 b5 b6 b7] uu by (intro sint_small) simp
  then have "generateKeyPair l a =
      Return (GenerateKeyPairWithReader l Ed25519 2048 (rand_New (rand_NewSource (spec_seed ?h))))"
    using ne by (simp add: generateKeyPair_def Let_def d u uu s)
  then show ?thesis
    using be_int_zero_bound [of b1 b2 b3 b4 b5 b6 b7] s by simp
qed


theorem generateKeyPair_deterministic_witness:
  "generateKeyPair example_lib ''127.0.0.1:30001'' =
     Return (Inr (string_bytes ''sk24189056735101959'', string_bytes ''pk24189056735101959''))
   \<and> spec_seed (sha1_Sum example_lib (string_bytes ''127.0.0.1:30001'')) = 24189056735101959"
proof -
  have len: "length (sha1_Sum example_lib (string_bytes ''127.0.0.1:30001'')) = 20"
    by (simp add: example_lib_def example_sha1_def)
  have seed: "spec_seed (sha1_Sum example_lib (string_bytes ''127.0.0.1:30001'')) = 24189056735101959"
    by (simp add: example_lib_def example_sha1_def spec_seed_def be_int_def)
  have gen: "GenerateKeyPairWithReader example_lib Ed25519 2048 (rand_New (rand_NewSource 24189056735101959))
      = Inr (string_bytes ''sk24189056735101959'', string_bytes ''pk24189056735101959'')"
    by (simp add: example_lib_def Itoa_def digit_char_def)
  show ?thesis
    using generateKeyPair_deterministic [OF len] by (simp add: seed gen)
qed


subsection \<open>The host under construction\<close>

text \<open>\<open>NewHost\<close> on the small library, without options and with \<open>Gossip()\<close>.\<close>

lemma NewHost_example:
  "fst (NewHost example_lib 0 [] []) = Return (Inr example_host)"
  by (simp add: NewHost_def example_lib_def example_host_def DefaultConfig_def Minute_def
      NewHost_identity_def NewHost_port_def MultiAddress_def Identity_def generateKeyPair_def
      example_sha1_def BigEndian_Uint64_def Let_def Itoa_def digit_char_def string_bytes_def)

lemma NewHost_example_Gossip:
  "fst (NewHost example_lib 0 [Gossip_Option] []) =
     Return (Inr (example_host\<lparr>cfg := DefaultConfig\<lparr>Gossip := True\<rparr>, newPubSub := NewGossipSub\<rparr>))"
  by (simp add: NewHost_def example_lib_def example_host_def DefaultConfig_def Minute_def
      NewHost_identity_def NewHost_port_def MultiAddress_def Identity_def generateKeyPair_def
      example_sha1_def BigEndian_Uint64_def Let_def Itoa_def digit_char_def string_bytes_def
      Gossip_Option_def)

text \<open>With \<open>ConnectTimeout(5 * time.Second)\<close> as the only option the host keeps the
  timeout of one minute and holds the gossip constructor.\<close>

lemma NewHost_example_ConnectTimeout:
  "fst (NewHost example_lib 0 [ConnectTimeout_Option 5000000000] []) =
     Return (Inr (example_host\<lparr>cfg := DefaultConfig\<lparr>Gossip := True\<rparr>, newPubSub := NewGossipSub\<rparr>))"
  by (simp add: NewHost_def example_lib_def example_host_def DefaultConfig_def Minute_def
      NewHost_identity_def NewHost_port_def MultiAddress_def Identity_def generateKeyPair_def
      example_sha1_def BigEndian_Uint64_def Let_def Itoa_def digit_char_def string_bytes_def
      ConnectTimeout_Option_def)

text \<open>
  C3. For every host \<open>NewHost\<close> returns, the stored \<open>kadKey\<close> is what the V1
  builder with the raw codec and SHA2-256 returns on the bytes of the host's
  pretty-printed peer id (which is \<open>Identity\<close>), and \<open>IdentityHash\<close> is the string
  form of that content id.
\<close>

theorem NewHost_kadKey:
  assumes "fst (NewHost l cx options tr) = Return (Inr h)"
  shows "V1Builder_Sum l Raw SHA2_256 (string_bytes (Identity l h)) = Inr (kadKey h)
         \<and> IdentityHash l h = Cid_String l (kadKey h)"
  using assms
  by (auto simp: NewHost_def Let_def Identity_def IdentityHash_def
      split: sum.splits outcome.splits prod.splits)

theorem NewHost_kadKey_witness:
  "fst (NewHost example_lib 0 [] []) = Return (Inr example_host)
   \<and> Identity example_lib example_host = ''QmHost1''
   \<and> V1Builder_Sum example_lib Raw SHA2_256 (string_bytes ''QmHost1'') = Inr ''cid7''
   \<and> kadKey example_host = ''cid7''
   \<and> IdentityHash example_lib example_host = ''cid7''"
proof -
  have i: "Identity example_lib example_host = ''QmHost1''"
    by (simp add: Identity_def example_lib_def example_host_def Itoa_def digit_char_def)
  have k: "kadKey example_host = ''cid7''" "Cid_String example_lib ''cid7'' = ''cid7''"
    by (simp_all add: example_host_def example_lib_def)
  show ?thesis
    using NewHost_kadKey [OF NewHost_example] NewHost_example by (simp add: i k)
qed

text \<open>
  C6. For every host \<open>NewHost\<close> returns, the pubsub constructor it holds is
  \<open>NewGossipSub\<close> exactly when the gossip flag of its configuration is set and
  \<open>NewFloodSub\<close> exactly when it is not; the flag is the one the options produced
  from the default configuration, and the option \<open>Gossip()\<close> sets it.
\<close>

theorem NewHost_newPubSub:
  assumes "fst (NewHost l cx options tr) = Return (Inr h)"
  shows "(newPubSub h = NewGossipSub \<longleftrightarrow> Gossip (cfg h))
         \<and> (newPubSub h = NewFloodSub \<longleftrightarrow> \<not> Gossip (cfg h))
         \<and> (\<exists>c. apply_options options DefaultConfig = Inr c \<and> Gossip c = Gossip (cfg h))
         \<and> Gossip_Option c0 = (None, c0\<lparr>Gossip := True\<rparr>)"
  using assms
  by (auto simp: NewHost_def Let_def NewHost_port_def Gossip_Option_def
      split: sum.splits outcome.splits prod.splits if_splits list.splits option.splits)

theorem NewHost_newPubSub_witness:
  "fst (NewHost example_lib 0 [Gossip_Option] []) =
     Return (Inr (example_host\<lparr>cfg := DefaultConfig\<lparr>Gossip := True\<rparr>, newPubSub := NewGossipSub\<rparr>))
   \<and> newPubSub (example_host\<lparr>cfg := DefaultConfig\<lparr>Gossip := True\<rparr>, newPubSub := NewGossipSub\<rparr>) = NewGossipSub
   \<and> Gossip (cfg (example_host\<lparr>cfg := DefaultConfig\<lparr>Gossip := True\<rparr>, newPubSub := NewGossipSub\<rparr>))
   \<and> fst (NewHost example_lib 0 [] []) = Return (Inr example_host)
   \<and> newPubSub example_host = NewFloodSub
   \<and> \<not> Gossip (cfg example_host)"
  using NewHost_newPubSub [OF NewHost_example_Gossip] NewHost_newPubSub [OF NewHost_example]
    NewHost_example_Gossip NewHost_example
  by (simp add: example_host_def DefaultConfig_def)

lemma run_op_cfg: "cfg (fst (run_op l x (h, tr))) = cfg h"
  by (cases x)
    (auto simp: Connect_def JoinOverlay_def AddUnicastPubSub_def AddBroadcastPubSub_def
      Broadcast_def Unicast_def Neighbors_def Close_def Let_def
      split: sum.splits option.splits prod.splits)

lemma run_ops_cfg: "cfg (fst (run_ops l xs s)) = cfg (fst s)"
proof (induction xs arbitrary: s)
  case Nil
  show ?case by simp
next
  case (Cons x xs)
  obtain h tr where s: "s = (h, tr)" by (cases s)
  show ?case using Cons.IH [of "run_op l x s"] run_op_cfg [of l x h tr] by (simp add: s)
qed

text \<open>
  C5. No method changes the configuration of a host: each of the eight methods that
  act on the host or the libraries leaves \<open>cfg\<close> as it was, and so does every
  sequence of calls of the twelve methods (\<open>Identity\<close>, \<open>IdentityHash\<close>,
  \<open>Address\<close> and \<open>MultiAddress\<close> only read).
\<close>

theorem cfg_set_once:
  "cfg (fst (snd (Connect l addr h tr))) = cfg h
   \<and> cfg (fst (snd (JoinOverlay l h tr))) = cfg h
   \<and> cfg (fst (snd (AddUnicastPubSub l topic ucb h tr))) = cfg h
   \<and> cfg (fst (snd (AddBroadcastPubSub l topic bcb h tr))) = cfg h
   \<and> cfg (fst (snd (Broadcast l topic data h tr))) = cfg h
   \<and> cfg (fst (snd (Unicast l addr topic data h tr))) = cfg h
   \<and> cfg (fst (snd (Neighbors l h tr))) = cfg h
   \<and> cfg (fst (snd (Close l h tr))) = cfg h
   \<and> cfg (fst (run_ops l xs (h, tr))) = cfg h"
  using run_op_cfg [of l "Op_Connect addr" h tr] run_op_cfg [of l Op_JoinOverlay h tr]
    run_op_cfg [of l "Op_AddUnicastPubSub topic ucb" h tr]
    run_op_cfg [of l "Op_AddBroadcastPubSub topic bcb" h tr]
    run_op_cfg [of l "Op_Broadcast topic data" h tr]
    run_op_cfg [of l "Op_Unicast addr topic data" h tr]
    run_op_cfg [of l Op_Neighbors h tr] run_op_cfg [of l Op_Close h tr]
    run_ops_cfg [of l xs "(h, tr)"]
  by simp

theorem cfg_set_once_witness:
  "cfg (fst (run_ops example_lib
      [Op_AddBroadcastPubSub ''news'' (\<lambda>d. None), Op_JoinOverlay, Op_Broadcast ''news'' [1],
       Op_MultiAddress, Op_Neighbors, Op_Close]
      (example_host, []))) = DefaultConfig"
  using cfg_set_once [where l = example_lib and h = example_host and tr = "[]" and xs =
      "[Op_AddBroadcastPubSub ''news'' (\<lambda>d. None), Op_JoinOverlay, Op_Broadcast ''news'' [1],
        Op_MultiAddress, Op_Neighbors, Op_Close]"]
  by (simp add: example_host_def)



subsection \<open>The operations\<close>

lemmas example_eval = example_lib_def example_host_def example_FindLocal_def
  example_ValueForProtocol_def proto_name_def P_IP4_def P_TCP_def P_IPFS_def Atoi_def ParseUint_def
  digit_val_def Itoa_def digit_char_def Let_def addrToMultiAddr_def




text \<open>
  Once the stream is open, \<open>Unicast\<close> returns what \<open>stream.Close\<close> returns: with
  the small library a failed \<open>stream.Write\<close> (an empty payload) ends in the result nil.
\<close>

lemma Unicast_after_NewStream:
  assumes "addrToMultiAddr l addr = Inr ma" "ValueForProtocol l ma P_IPFS = (s, None)"
    "IDB58Decode l s = Inr p"
    "tra = (if length (Peerstore_Addrs l tr (host h) p) = 0
            then tr @ [Peerstore_AddAddr (host h) p ma] else tr)"
    "host_NewStream l tra (host h) (ctx h) p topic = Inr stream"
  shows "Unicast l addr topic data h tr =
           (stream_Close l (tra @ [Host_NewStream (host h) (ctx h) p topic, Stream_Write stream data]) stream,
            h,
            tra @ [Host_NewStream (host h) (ctx h) p topic, Stream_Write stream data, Stream_Close stream])"
  using assms by (simp add: Unicast_def Let_def split: option.splits)

lemma Unicast_example_Write_error:
  "stream_Write example_lib
     [Peerstore_AddAddr 1 ''QmA'' ''/ip4/10.0.0.7/tcp/4001/ipfs/QmA'', Host_NewStream 1 0 ''QmA'' ''chat'']
     3 [] = Some (Error ''short write'')"
  "fst (Unicast example_lib ''/ip4/10.0.0.7/tcp/4001/ipfs/QmA'' ''chat'' [] example_host []) = None"
  by (simp_all add: Unicast_def example_eval)

text \<open>
  C8. \<open>AddUnicastPubSub\<close> on a topic present in \<open>topics\<close> and \<open>AddBroadcastPubSub\<close>
  on a topic present in \<open>pubs\<close> return nil and leave the host and the trace (so the
  installed handlers and every library object) as they were, whatever the callback. So a
  second registration after a first one that returned nil changes nothing.
\<close>

theorem registration_idempotent:
  "(topics h t \<noteq> None \<longrightarrow> AddUnicastPubSub l t ucb h tr = (None, h, tr))
   \<and> (pubs h t \<noteq> None \<longrightarrow> AddBroadcastPubSub l t bcb h tr = (None, h, tr))
   \<and> (AddUnicastPubSub l t ucb h tr = (r, h', tr') \<longrightarrow>
        AddUnicastPubSub l t ucb' h' tr' = (None, h', tr'))
   \<and> (AddBroadcastPubSub l t bcb h tr = (None, h', tr') \<longrightarrow>
        AddBroadcastPubSub l t bcb' h' tr' = (None, h', tr'))"
  by (auto simp: AddUnicastPubSub_def AddBroadcastPubSub_def Let_def
      split: if_splits sum.splits)

theorem registration_idempotent_witness:
  "topics example_registered ''chat'' \<noteq> None
   \<and> AddUnicastPubSub example_lib ''chat'' (\<lambda>d. Some (Error ''other'')) example_registered []
       = (None, example_registered, [])
   \<and> pubs example_registered ''news'' \<noteq> None
   \<and> AddBroadcastPubSub example_lib ''news'' (\<lambda>d. Some (Error ''other'')) example_registered []
       = (None, example_registered, [])
   \<and> AddUnicastPubSub example_lib ''chat'' (\<lambda>d. None) example_host []
       = (None, example_host\<lparr>topics := [''chat'' \<mapsto> ()]\<rparr>, [SetStreamHandler 1 ''chat'' (\<lambda>d. None)])
   \<and> AddUnicastPubSub example_lib ''chat'' (\<lambda>d. Some (Error ''other''))
        (example_host\<lparr>topics := [''chat'' \<mapsto> ()]\<rparr>) [SetStreamHandler 1 ''chat'' (\<lambda>d. None)]
       = (None, example_host\<lparr>topics := [''chat'' \<mapsto> ()]\<rparr>, [SetStreamHandler 1 ''chat'' (\<lambda>d. None)])
   \<and> AddBroadcastPubSub example_lib ''news'' (\<lambda>d. None) example_host []
       = (None, example_host\<lparr>pubs := [''news'' \<mapsto> 1], subs := [(''news'', 2)]\<rparr>,
          [PubSub_New NewFloodSub 0 1, PubSub_Subscribe 1 ''news'', Go_broadcast 2 (\<lambda>d. None)])
   \<and> AddBroadcastPubSub example_lib ''news'' (\<lambda>d. Some (Error ''other''))
        (example_host\<lparr>pubs := [''news'' \<mapsto> 1], subs := [(''news'', 2)]\<rparr>)
        [PubSub_New NewFloodSub 0 1, PubSub_Subscribe 1 ''news'', Go_broadcast 2 (\<lambda>d. None)]
       = (None, example_host\<lparr>pubs := [''news'' \<mapsto> 1], subs := [(''news'', 2)]\<rparr>,
          [PubSub_New NewFloodSub 0 1, PubSub_Subscribe 1 ''news'', Go_broadcast 2 (\<lambda>d. None)])"
proof -
  have u1: "AddUnicastPubSub example_lib ''chat'' (\<lambda>d. None) example_host []
       = (None, example_host\<lparr>topics := [''chat'' \<mapsto> ()]\<rparr>, [SetStreamHandler 1 ''chat'' (\<lambda>d. None)])"
    by (simp add: AddUnicastPubSub_def example_host_def)
  have b1: "AddBroadcastPubSub example_lib ''news'' (\<lambda>d. None) example_host []
       = (None, example_host\<lparr>pubs := [''news'' \<mapsto> 1], subs := [(''news'', 2)]\<rparr>,
          [PubSub_New NewFloodSub 0 1, PubSub_Subscribe 1 ''news'', Go_broadcast 2 (\<lambda>d. None)])"
    by (simp add: AddBroadcastPubSub_def example_host_def example_lib_def assign_def Let_def)
  show ?thesis
    using registration_idempotent [where h = example_registered and t = "''chat''" and l = example_lib
        and ucb = "\<lambda>d. Some (Error ''other'')" and tr = "[]"]
      registration_idempotent [where h = example_registered and t = "''news''" and l = example_lib
        and bcb = "\<lambda>d. Some (Error ''other'')" and tr = "[]"]
      registration_idempotent [where h = example_host and t = "''chat''" and l = example_lib
        and ucb = "\<lambda>d. None" and ucb' = "\<lambda>d. Some (Error ''other'')" and tr = "[]"]
      registration_idempotent [where h = example_host and t = "''news''" and l = example_lib
        and bcb = "\<lambda>d. None" and bcb' = "\<lambda>d. Some (Error ''other'')" and tr = "[]"]
      u1 b1
    by (simp add: example_registered_def)
qed

lemma Broadcast_None: "pubs h t = None \<Longrightarrow> Broadcast l t data h tr = (None, h, tr)"
  by (simp add: Broadcast_def)

lemma run_op_pubs:
  assumes "\<forall>cb. x \<noteq> Op_AddBroadcastPubSub t cb" "pubs h t = None"
  shows "pubs (fst (run_op l x (h, tr))) t = None"
  using assms
  by (cases x)
    (auto simp: Connect_def JoinOverlay_def AddUnicastPubSub_def AddBroadcastPubSub_def
      Broadcast_def Unicast_def Neighbors_def Close_def Let_def
      split: sum.splits option.splits prod.splits)

lemma run_ops_pubs:
  assumes "\<forall>cb. Op_AddBroadcastPubSub t cb \<notin> set xs" "pubs (fst s) t = None"
  shows "pubs (fst (run_ops l xs s)) t = None"
  using assms
proof (induction xs arbitrary: s)
  case Nil
  then show ?case by simp
next
  case (Cons x xs)
  obtain h tr where s: "s = (h, tr)" by (cases s)
  from Cons.prems have "\<forall>cb. x \<noteq> Op_AddBroadcastPubSub t cb" by auto
  with Cons.prems(2) have "pubs (fst (run_op l x s)) t = None"
    using run_op_pubs [of x t h l tr] by (simp add: s)
  moreover from Cons.prems have "\<forall>cb. Op_AddBroadcastPubSub t cb \<notin> set xs" by auto
  ultimately show ?case using Cons.IH [of "run_op l x s"] by simp
qed

lemma NewHost_pubs:
  assumes "fst (NewHost l cx options tr) = Return (Inr h)"
  shows "pubs h = Map.empty \<and> topics h = Map.empty \<and> subs h = [] \<and> \<not> close h"
  using assms
  by (auto simp: NewHost_def Let_def split: sum.splits outcome.splits prod.splits)

text \<open>
  C9. On a host built by \<open>NewHost\<close> and used through its methods, \<open>Broadcast\<close> on a
  topic that is not in \<open>pubs\<close> returns nil and leaves the host and the trace as they
  were: no publish call, no other call. The topic is not in \<open>pubs\<close> whenever
  \<open>AddBroadcastPubSub\<close> was never called with it.
\<close>

theorem Broadcast_unregistered:
  assumes "fst (NewHost l cx options tr0) = Return (Inr h0)"
    and "run_ops l xs (h0, snd (NewHost l cx options tr0)) = (h, tr)"
  shows "(pubs h t = None \<longrightarrow> Broadcast l t data h tr = (None, h, tr))
         \<and> ((\<forall>cb. Op_AddBroadcastPubSub t cb \<notin> set xs) \<longrightarrow> pubs h t = None)"
proof -
  have "pubs h0 t = None" using NewHost_pubs [OF assms(1)] by simp
  then have "(\<forall>cb. Op_AddBroadcastPubSub t cb \<notin> set xs) \<longrightarrow> pubs h t = None"
    using run_ops_pubs [of t xs "(h0, snd (NewHost l cx options tr0))" l] assms(2) by auto
  then show ?thesis by (simp add: Broadcast_None)
qed

theorem Broadcast_unregistered_witness:
  "fst (NewHost example_lib 0 [] []) = Return (Inr example_host)
   \<and> pubs (fst (run_ops example_lib [Op_AddUnicastPubSub ''chat'' (\<lambda>d. None), Op_JoinOverlay]
        (example_host, snd (NewHost example_lib 0 [] [])))) ''news'' = None
   \<and> Broadcast example_lib ''news'' [1, 2, 3]
        (fst (run_ops example_lib [Op_AddUnicastPubSub ''chat'' (\<lambda>d. None), Op_JoinOverlay]
          (example_host, snd (NewHost example_lib 0 [] []))))
        (snd (run_ops example_lib [Op_AddUnicastPubSub ''chat'' (\<lambda>d. None), Op_JoinOverlay]
          (example_host, snd (NewHost example_lib 0 [] []))))
     = (None,
        fst (run_ops example_lib [Op_AddUnicastPubSub ''chat'' (\<lambda>d. None), Op_JoinOverlay]
          (example_host, snd (NewHost example_lib 0 [] []))),
        snd (run_ops example_lib [Op_AddUnicastPubSub ''chat'' (\<lambda>d. None), Op_JoinOverlay]
          (example_host, snd (NewHost example_lib 0 [] []))))"
  using Broadcast_unregistered [OF NewHost_example prod.collapse [symmetric], where t = "''news''"
      and data = "[1, 2, 3]" and xs = "[Op_AddUnicastPubSub ''chat'' (\<lambda>d. None), Op_JoinOverlay]"]
    NewHost_example
  by simp

lemma Neighbors_addrs_spec:
  "Neighbors_addrs l mas acc = acc @ (case spec_neighbor l mas of None \<Rightarrow> [] | Some s \<Rightarrow> [s])"
proof (induction mas)
  case Nil
  show ?case by (simp add: spec_neighbor_def)
next
  case (Cons ma mas)
  show ?case
  proof (cases "spec_entry l ma")
    case None
    then have "Neighbors_addrs l (ma # mas) acc = Neighbors_addrs l mas acc"
      by (auto simp: spec_entry_def split: prod.splits if_splits)
    moreover from None have "spec_neighbor l (ma # mas) = spec_neighbor l mas"
      by (simp add: spec_neighbor_def)
    ultimately show ?thesis using Cons.IH by simp
  next
    case (Some s)
    then have "Neighbors_addrs l (ma # mas) acc = acc @ [s]"
      by (auto simp: spec_entry_def split: prod.splits if_splits)
    moreover from Some have "spec_neighbor l (ma # mas) = Some s"
      by (simp add: spec_neighbor_def)
    ultimately show ?thesis by simp
  qed
qed

lemma Neighbors_peers_spec:
  "Neighbors_peers l tr kd peers acc =
     acc @ List.map_filter (\<lambda>p. spec_neighbor l (Addrs (kad_FindLocal l tr kd p))) peers"
proof (induction peers arbitrary: acc)
  case Nil
  show ?case by (simp add: List.map_filter_simps)
next
  case (Cons p peers)
  show ?case
    by (simp add: Cons.IH Neighbors_addrs_spec List.map_filter_simps split: option.splits)
qed

lemma length_map_filter_le: "length (List.map_filter f xs) \<le> length xs"
  by (induction xs) (auto simp: List.map_filter_simps split: option.splits)

text \<open>
  C10. The list a successful \<open>Neighbors\<close> returns holds, in the order of the closest
  peers, the entry of each peer that has one: \<open>ip:port\<close> from the first locally known
  address of the peer that carries a non-empty IPv4 component and a TCP component that
  parses as an integer. A peer without such an address contributes nothing, so the
  list is no longer than the list of peers.
\<close>

theorem Neighbors_entries:
  assumes "fst (Neighbors l h tr) = Inr ns"
  shows "\<exists>peers. kad_GetClosestPeers l tr (kad h) (ctx h) (Cid_String l (kadKey h)) = Inr peers
           \<and> ns = List.map_filter
                (\<lambda>p. spec_neighbor l (Addrs (kad_FindLocal l
                   (tr @ [Dht_GetClosestPeers (kad h) (ctx h) (Cid_String l (kadKey h))]) (kad h) p)))
                peers
           \<and> length ns \<le> length peers"
  using assms
  by (auto simp: Neighbors_def Let_def Neighbors_peers_spec length_map_filter_le split: sum.splits)

lemma Neighbors_example:
  "fst (Neighbors example_lib example_host []) = Inr [''10.0.0.7:4001'', ''10.0.0.9:4003'']"
  by (simp add: Neighbors_def example_eval)

theorem Neighbors_entries_witness:
  "fst (Neighbors example_lib example_host []) = Inr [''10.0.0.7:4001'', ''10.0.0.9:4003'']
   \<and> kad_GetClosestPeers example_lib [] 2 0 ''cid7'' = Inr [''QmA'', ''QmB'', ''QmC'']
   \<and> List.map_filter
        (\<lambda>p. spec_neighbor example_lib
           (Addrs (kad_FindLocal example_lib [Dht_GetClosestPeers 2 0 ''cid7''] 2 p)))
        [''QmA'', ''QmB'', ''QmC'']
      = [''10.0.0.7:4001'', ''10.0.0.9:4003'']"
  using Neighbors_entries [OF Neighbors_example] Neighbors_example
  by (simp add: example_eval spec_neighbor_def spec_entry_def List.map_filter_simps)

subsection \<open>Shutdown\<close>

text \<open>
  \<open>Close\<close> closes the channel, cancels every subscription of the host and closes the
  DHT; a second \<open>Close\<close> panics. What the background tasks do with it is outside
  the model.
\<close>

lemma Close_effects:
  assumes "\<not> close h"
  shows "close (fst (snd (Close l h tr)))"
    and "\<forall>sub \<in> snd ` set (subs h). Subscription_Cancel sub \<in> set (snd (snd (Close l h tr)))"
    and "Dht_Close (kad h) \<in> set (snd (snd (Close l h tr)))"
  using assms by (auto simp: Close_def Let_def split: option.splits)

lemma Close_twice:
  "close h \<Longrightarrow> Close l h tr = (Panic ''close of closed channel'', h, tr)"
  by (simp add: Close_def)

end
